theory Spec2Isabelle
  imports Main
begin

section \<open>Tensor kinds and the shape helper\<close>

text \<open>
  The two specialisations of \<open>eigen_tensor_helper\<close> are the two constructors of
  \<open>tensor_type\<close>: \<open>Tensor Scalar NumIndices Layout IndexType\<close> for
  \<open>Eigen::Tensor<Scalar_, NumIndices_, Options_, IndexType>\<close> and
  \<open>TensorFixedSize Scalar Indices Layout IndexType\<close> for
  \<open>Eigen::TensorFixedSize<Scalar_, Eigen::Sizes<Indices...>, Options_, IndexType>\<close>.
  The scalar type is a tag of an arbitrary type \<open>'d\<close>; \<open>Options_\<close> is kept as the
  layout it selects.
\<close>

datatype layout = RowMajor | ColMajor

text \<open>
  \<open>IndexType\<close> is an integer type: signed or unsigned, of a width in bits. A value of
  that type is kept as the \<open>int\<close> it denotes. The dimensions of a foreign array are
  \<open>ssize_t\<close> values, also kept as \<open>int\<close>; storing one into an \<open>Index\<close> (as
  \<open>std::copy\<close> into a \<open>std::array<Index, N>\<close> does) keeps the low bits of it, which
  is \<open>convert_index\<close>. A value fits the index type when the conversion leaves it as it
  is: for the 64-bit signed default (\<open>std::ptrdiff_t\<close>) every \<open>ssize_t\<close> value does.
\<close>

datatype index_type = Signed_index nat | Unsigned_index nat

fun convert_index :: "index_type \<Rightarrow> int \<Rightarrow> int" where
  "convert_index (Signed_index w) x = signed_take_bit (w - 1) x"
| "convert_index (Unsigned_index w) x = take_bit w x"

definition fits_index :: "index_type \<Rightarrow> int \<Rightarrow> bool" where
  "fits_index I x \<longleftrightarrow> convert_index I x = x"

datatype 'd tensor_type =
    Tensor 'd nat layout index_type
  | TensorFixedSize 'd "int list" layout index_type

fun Scalar :: "'d tensor_type \<Rightarrow> 'd" where
  "Scalar (Tensor sc n l I) = sc"
| "Scalar (TensorFixedSize sc Indices l I) = sc"

fun NumIndices :: "'d tensor_type \<Rightarrow> nat" where
  "NumIndices (Tensor sc n l I) = n"
| "NumIndices (TensorFixedSize sc Indices l I) = length Indices"

fun Layout :: "'d tensor_type \<Rightarrow> layout" where
  "Layout (Tensor sc n l I) = l"
| "Layout (TensorFixedSize sc Indices l I) = l"

fun Index :: "'d tensor_type \<Rightarrow> index_type" where
  "Index (Tensor sc n l I) = I"
| "Index (TensorFixedSize sc Indices l I) = I"

text \<open>
  The bits of an array's flag word that the source reads or clears, as a set of flag
  names: \<open>flags & F\<close> is non-zero when \<open>F\<close> is in the set, \<open>flags &= ~F\<close> removes it.
\<close>

datatype array_flag = c_style | f_style | NPY_ARRAY_WRITEABLE

definition compute_array_flag_from_tensor :: "'d tensor_type \<Rightarrow> array_flag" where
  "compute_array_flag_from_tensor T =
     (if Layout T = RowMajor then c_style else f_style)"

section \<open>Memory\<close>

text \<open>
  Addresses are indices into the store. A block of the store is a native tensor object
  together with its element storage (\<open>dimensions\<close>, and \<open>elems\<close> in memory order), or
  the element buffer of a foreign array. Allocation appends a block, so the address
  \<open>length s\<close> is the one address that no block of \<open>s\<close> has.
\<close>

type_synonym addr = nat

record 'e block =
  dimensions :: "int list"
  elems :: "'e list"

type_synonym 'e store = "'e block list"


text \<open>A \<open>TensorMap\<close>: a data pointer and dimensions, owning nothing.\<close>

record tensor_map =
  map_data :: addr
  map_dimensions :: "int list"

section \<open>The foreign array\<close>

text \<open>
  The owner slot of an array: the empty \<open>object\<close>, \<open>none()\<close>, a capsule holding a
  pointer and the destructor to run on it, or a borrowed reference to another object.
\<close>

datatype deleter =
    Aligned_destroy  \<comment> \<open>\<open>copy->~Type(); allocator.deallocate(copy, 1)\<close>\<close>
  | Delete           \<comment> \<open>\<open>delete (Type *) ptr\<close>\<close>

datatype 'p object = Empty_object | None_object | Capsule addr deleter | Borrowed 'p

record ('d, 'p) ndarray =
  shape :: "int list"
  dtype :: 'd
  flags :: "array_flag set"
  data :: addr
  base :: "'p object"

definition ndim :: "('d, 'p) ndarray \<Rightarrow> nat" where
  "ndim a = length (shape a)"


text \<open>
  \<open>reinterpret_borrow<object>(parent)\<close>: a null handle (\<open>None\<close>) gives the empty
  object.
\<close>

definition reinterpret_borrow :: "'p option \<Rightarrow> 'p object" where
  "reinterpret_borrow parent = (case parent of None \<Rightarrow> Empty_object | Some p \<Rightarrow> Borrowed p)"

text \<open>
  Modelled from the spec: the constructor \<open>array_t(shape, ptr, base)\<close> of the foreign
  array adapter (\<open>numpy.h\<close>, which this unit includes and does not contain). It wraps
  (shape, raw pointer, owner or capsule) into a new handle. With an empty owner the handle
  gets a new independent buffer with the data copied (the Copy row of the decision table):
  the elements that the shape spans, from the pointer on. With a capsule or another
  object as owner it aliases the pointer. The new handle is writeable and has the layout
  of the tensor type.
\<close>

definition array_t :: "'d tensor_type \<Rightarrow> 'e store \<Rightarrow> int list \<Rightarrow> addr \<Rightarrow> 'p object
    \<Rightarrow> 'e store \<times> ('d, 'p) ndarray" where
  "array_t T s shp ptr b =
     (if b = Empty_object then
        (s @ [\<lparr>dimensions = shp, elems = take (nat (prod_list shp)) (elems (s ! ptr))\<rparr>],
         \<lparr>shape = shp, dtype = Scalar T,
          flags = {compute_array_flag_from_tensor T, NPY_ARRAY_WRITEABLE},
          data = length s, base = Empty_object\<rparr>)
      else
        (s,
         \<lparr>shape = shp, dtype = Scalar T,
          flags = {compute_array_flag_from_tensor T, NPY_ARRAY_WRITEABLE},
          data = ptr, base = b\<rparr>))"

section \<open>Failures\<close>

text \<open>
  \<open>pybind11_fail\<close> and any exception of the adapter end the conversion: \<open>Inl\<close> of the
  failure. \<open>load\<close> returning \<open>false\<close> is not a failure of this kind: it is the result
  \<open>Inr (s, None)\<close>.
\<close>

datatype fatal =
    Reference_policy_for_rvalue  \<comment> \<open>Cannot use a reference return value policy for an rvalue\<close>
  | Move_from_const              \<comment> \<open>Cannot move from a constant reference\<close>
  | Take_ownership_of_const      \<comment> \<open>Cannot take ownership of a const reference\<close>
  | Bug_in_eigen_h               \<comment> \<open>pybind11 bug in eigen.h, please file a bug report\<close>
  | Invalid_policy_for_map       \<comment> \<open>Invalid return_value_policy for Eigen Map type, ...\<close>
  | Adapter_exception            \<comment> \<open>an exception thrown by an accessor of the adapter\<close>

section \<open>eigen_tensor_helper\<close>

fun get_shape :: "'d tensor_type \<Rightarrow> int list \<Rightarrow> int list" where
  \<comment> \<open>the second argument is \<open>f.dimensions()\<close>\<close>
  "get_shape (Tensor sc n l I) f_dimensions = f_dimensions"
| "get_shape (TensorFixedSize sc Indices l I) f_dimensions = Indices"

fun is_correct_shape :: "'d tensor_type \<Rightarrow> int list \<Rightarrow> bool" where
  "is_correct_shape (Tensor sc n l I) shp = True"
| "is_correct_shape (TensorFixedSize sc Indices l I) shp = (Indices = shp)"

section \<open>type_caster<Type>\<close>

text \<open>
  Modelled from the spec: the assignment \<open>value = Eigen::TensorMap<Type>(ptr, shape)\<close>
  is Eigen's (outside this unit). It copies the contents of the view element by element
  into a freshly allocated owned tensor value; the view spans as many elements as the
  product of its dimensions, from its pointer on.
\<close>

definition assign_from_map :: "'e store \<Rightarrow> tensor_map \<Rightarrow> 'e store \<times> addr" where
  "assign_from_map s m =
     (s @ [\<lparr>dimensions = map_dimensions m,
            elems = take (nat (prod_list (map_dimensions m))) (elems (s ! map_data m))\<rparr>],
      length s)"

text \<open>
  \<open>load\<close> of the owning caster. The argument \<open>a\<close> is the array that the adapter's
  converting constructor \<open>array_t(object)\<close> has built from \<open>src\<close> (its coercion is
  decided before this code runs). \<open>std::copy\<close> stores the first \<open>NumIndices\<close>
  dimensions of the array into a \<open>std::array<Index, NumIndices>\<close>, converting each to
  \<open>Index\<close>. The result \<open>Inr (s', Some v)\<close> is \<open>return true\<close> with \<open>value\<close> stored at
  \<open>v\<close>; \<open>Inr (s, None)\<close> is \<open>return false\<close>.
\<close>

definition tensor_load :: "'d tensor_type \<Rightarrow> 'e store \<Rightarrow> ('d, 'p) ndarray \<Rightarrow> bool
    \<Rightarrow> fatal + ('e store \<times> addr option)" where
  "tensor_load T s a convert =
     (if ndim a \<noteq> NumIndices T then Inr (s, None)
      else
        let shp = map (convert_index (Index T)) (take (NumIndices T) (shape a)) in
        if \<not> is_correct_shape T shp then Inr (s, None)
        else
          let (s', v) = assign_from_map s \<lparr>map_data = data a, map_dimensions = shp\<rparr>
          in Inr (s', Some v))"

datatype return_value_policy =
    automatic | automatic_reference | take_ownership | copy | move
  | reference | reference_internal
  | unrecognized  \<comment> \<open>any other value of the underlying type\<close>

text \<open>
  Modelled from the spec: \<open>Type(std::move( *src))\<close> placed into
  \<open>allocator.allocate(1)\<close> is Eigen's move constructor (outside this unit). The tensor
  is relocated into a new heap allocation; what is left in the source object is not read
  again by the caster, and the model leaves that block as it is.
\<close>

definition move_construct :: "'e store \<Rightarrow> addr \<Rightarrow> 'e store \<times> addr" where
  "move_construct s src = (s @ [s ! src], length s)"

text \<open>
  \<open>cast_impl<C>\<close>: \<open>is_const\<close> is \<open>std::is_const<C>::value\<close>. The switch yields the
  pointer, the owner object and the writeable flag, or fails. A tensor object and its
  element storage are one block, so \<open>src->data()\<close> is the address \<open>src\<close> itself and
  \<open>H::get_shape( *src)\<close> reads the dimensions of that block.
\<close>

definition tensor_policy_switch :: "bool \<Rightarrow> 'e store \<Rightarrow> addr \<Rightarrow> return_value_policy
    \<Rightarrow> 'p option \<Rightarrow> fatal + ('e store \<times> addr \<times> 'p object \<times> bool)" where
  "tensor_policy_switch is_const s src policy parent =
     (case policy of
        move \<Rightarrow>
          if is_const then Inl Move_from_const
          else
            let (s', copy') = move_construct s src
            in Inr (s', copy', Capsule copy' Aligned_destroy, True)
      | take_ownership \<Rightarrow>
          if is_const then Inl Take_ownership_of_const
          else Inr (s, src, Capsule src Delete, True)
      | copy \<Rightarrow> Inr (s, src, Empty_object, True)
      | reference \<Rightarrow> Inr (s, src, None_object, \<not> is_const)
      | reference_internal \<Rightarrow> Inr (s, src, reinterpret_borrow parent, \<not> is_const)
      | _ \<Rightarrow> Inl Bug_in_eigen_h)"

definition tensor_cast_impl :: "'d tensor_type \<Rightarrow> bool \<Rightarrow> 'e store \<Rightarrow> addr
    \<Rightarrow> return_value_policy \<Rightarrow> 'p option \<Rightarrow> fatal + ('e store \<times> ('d, 'p) ndarray)" where
  "tensor_cast_impl T is_const s src policy parent =
     (case tensor_policy_switch is_const s src policy parent of
        Inl e \<Rightarrow> Inl e
      | Inr (s1, src1, parent_object, writeable) \<Rightarrow>
          let (s2, result) =
                array_t T s1 (get_shape T (dimensions (s1 ! src1))) src1 parent_object;
              result = (if \<not> writeable
                        then result\<lparr>flags := flags result - {NPY_ARRAY_WRITEABLE}\<rparr>
                        else result)
          in Inr (s2, result))"

text \<open>The six overloads of \<open>cast\<close>, in the order of the source.\<close>

definition tensor_cast_rvalue :: "'d tensor_type \<Rightarrow> 'e store \<Rightarrow> addr
    \<Rightarrow> return_value_policy \<Rightarrow> 'p option \<Rightarrow> fatal + ('e store \<times> ('d, 'p) ndarray)" where
  "tensor_cast_rvalue T s src policy parent =
     (if policy = reference \<or> policy = reference_internal
      then Inl Reference_policy_for_rvalue
      else tensor_cast_impl T False s src move parent)"

definition tensor_cast_const_rvalue :: "'d tensor_type \<Rightarrow> 'e store \<Rightarrow> addr
    \<Rightarrow> return_value_policy \<Rightarrow> 'p option \<Rightarrow> fatal + ('e store \<times> ('d, 'p) ndarray)" where
  "tensor_cast_const_rvalue T s src policy parent =
     (if policy = reference \<or> policy = reference_internal
      then Inl Reference_policy_for_rvalue
      else tensor_cast_impl T True s src move parent)"

definition tensor_cast_lvalue :: "'d tensor_type \<Rightarrow> 'e store \<Rightarrow> addr
    \<Rightarrow> return_value_policy \<Rightarrow> 'p option \<Rightarrow> fatal + ('e store \<times> ('d, 'p) ndarray)" where
  "tensor_cast_lvalue T s src policy parent =
     (let policy = (if policy = automatic \<or> policy = automatic_reference
                    then copy else policy)
      in tensor_cast_impl T False s src policy parent)"

definition tensor_cast_pointer :: "'d tensor_type \<Rightarrow> 'e store \<Rightarrow> addr
    \<Rightarrow> return_value_policy \<Rightarrow> 'p option \<Rightarrow> fatal + ('e store \<times> ('d, 'p) ndarray)" where
  "tensor_cast_pointer T s src policy parent =
     (let policy = (if policy = automatic then take_ownership
                    else if policy = automatic_reference then reference
                    else policy)
      in tensor_cast_impl T False s src policy parent)"

definition tensor_cast_const_pointer :: "'d tensor_type \<Rightarrow> 'e store \<Rightarrow> addr
    \<Rightarrow> return_value_policy \<Rightarrow> 'p option \<Rightarrow> fatal + ('e store \<times> ('d, 'p) ndarray)" where
  "tensor_cast_const_pointer T s src policy parent =
     (let policy = (if policy = automatic then take_ownership
                    else if policy = automatic_reference then reference
                    else policy)
      in tensor_cast_impl T True s src policy parent)"

definition tensor_cast_const_lvalue :: "'d tensor_type \<Rightarrow> 'e store \<Rightarrow> addr
    \<Rightarrow> return_value_policy \<Rightarrow> 'p option \<Rightarrow> fatal + ('e store \<times> ('d, 'p) ndarray)" where
  "tensor_cast_const_lvalue T s src policy parent =
     (let policy = (if policy = automatic \<or> policy = automatic_reference
                    then copy else policy)
      in tensor_cast_const_pointer T s src policy parent)"

text \<open>
  Overload resolution: the value category and constness of the source select the
  overload.
\<close>

datatype source =
    Rvalue | Const_rvalue | Lvalue | Const_lvalue | Pointer | Const_pointer

fun is_const_source :: "source \<Rightarrow> bool" where
  "is_const_source Rvalue = False"
| "is_const_source Const_rvalue = True"
| "is_const_source Lvalue = False"
| "is_const_source Const_lvalue = True"
| "is_const_source Pointer = False"
| "is_const_source Const_pointer = True"

fun is_rvalue_source :: "source \<Rightarrow> bool" where
  "is_rvalue_source Rvalue = True"
| "is_rvalue_source Const_rvalue = True"
| "is_rvalue_source _ = False"

fun tensor_cast :: "'d tensor_type \<Rightarrow> 'e store \<Rightarrow> source \<Rightarrow> addr
    \<Rightarrow> return_value_policy \<Rightarrow> 'p option \<Rightarrow> fatal + ('e store \<times> ('d, 'p) ndarray)" where
  "tensor_cast T s Rvalue src policy parent = tensor_cast_rvalue T s src policy parent"
| "tensor_cast T s Const_rvalue src policy parent =
     tensor_cast_const_rvalue T s src policy parent"
| "tensor_cast T s Lvalue src policy parent = tensor_cast_lvalue T s src policy parent"
| "tensor_cast T s Const_lvalue src policy parent =
     tensor_cast_const_lvalue T s src policy parent"
| "tensor_cast T s Pointer src policy parent = tensor_cast_pointer T s src policy parent"
| "tensor_cast T s Const_pointer src policy parent =
     tensor_cast_const_pointer T s src policy parent"

section \<open>type_caster<Eigen::TensorMap<Type>>\<close>

text \<open>
  Modelled from the spec: the accessor \<open>mutable_data()\<close> of the foreign array adapter
  (\<open>numpy.h\<close>), which hands out the raw pointer of the array.
\<close>

definition mutable_data :: "('d, 'p) ndarray \<Rightarrow> fatal + addr" where
  "mutable_data a = Inr (data a)"

text \<open>
  \<open>load\<close> of the map caster, over the accessor \<open>md\<close> it calls for the pointer
  (\<open>a.mutable_data()\<close>). The shape is stored into a \<open>std::array<Index, NumIndices>\<close>
  as in the owning load. \<open>Inr (s, Some m)\<close> is \<open>return true\<close> with \<open>value\<close> holding the
  view \<open>m\<close>; \<open>Inr (s, None)\<close> is \<open>return false\<close>.
\<close>

definition map_load_with :: "(('d, 'p) ndarray \<Rightarrow> fatal + addr) \<Rightarrow> 'd tensor_type
    \<Rightarrow> 'e store \<Rightarrow> ('d, 'p) ndarray \<Rightarrow> bool \<Rightarrow> fatal + ('e store \<times> tensor_map option)" where
  "map_load_with md T s a convert =
     (if compute_array_flag_from_tensor T \<notin> flags a then Inr (s, None)
      else if dtype a \<noteq> Scalar T then Inr (s, None)
      else if ndim a \<noteq> NumIndices T then Inr (s, None)
      else
        let shp = map (convert_index (Index T)) (take (NumIndices T) (shape a)) in
        if \<not> is_correct_shape T shp then Inr (s, None)
        else
          (case md a of
             Inl e \<Rightarrow> Inl e
           | Inr p \<Rightarrow> Inr (s, Some \<lparr>map_data = p, map_dimensions = shp\<rparr>)))"


definition map_cast_impl :: "'d tensor_type \<Rightarrow> bool \<Rightarrow> 'e store \<Rightarrow> tensor_map
    \<Rightarrow> return_value_policy \<Rightarrow> 'p option \<Rightarrow> fatal + ('e store \<times> ('d, 'p) ndarray)" where
  "map_cast_impl T is_const s src policy parent =
     (let writeable = \<not> is_const in
      case (case policy of
              reference \<Rightarrow> Inr None_object
            | reference_internal \<Rightarrow> Inr (reinterpret_borrow parent)
            | _ \<Rightarrow> Inl Invalid_policy_for_map) of
        Inl e \<Rightarrow> Inl e
      | Inr parent_object \<Rightarrow>
          let (s2, result) =
                array_t T s (get_shape T (map_dimensions src)) (map_data src) parent_object;
              result = (if \<not> writeable
                        then result\<lparr>flags := flags result - {NPY_ARRAY_WRITEABLE}\<rparr>
                        else result)
          in Inr (s2, result))"

definition map_cast_rvalue :: "'d tensor_type \<Rightarrow> 'e store \<Rightarrow> tensor_map
    \<Rightarrow> return_value_policy \<Rightarrow> 'p option \<Rightarrow> fatal + ('e store \<times> ('d, 'p) ndarray)" where
  "map_cast_rvalue T s src policy parent = map_cast_impl T False s src policy parent"

definition map_cast_const_rvalue :: "'d tensor_type \<Rightarrow> 'e store \<Rightarrow> tensor_map
    \<Rightarrow> return_value_policy \<Rightarrow> 'p option \<Rightarrow> fatal + ('e store \<times> ('d, 'p) ndarray)" where
  "map_cast_const_rvalue T s src policy parent = map_cast_impl T True s src policy parent"

definition map_cast_lvalue :: "'d tensor_type \<Rightarrow> 'e store \<Rightarrow> tensor_map
    \<Rightarrow> return_value_policy \<Rightarrow> 'p option \<Rightarrow> fatal + ('e store \<times> ('d, 'p) ndarray)" where
  "map_cast_lvalue T s src policy parent =
     (let policy = (if policy = automatic \<or> policy = automatic_reference
                    then copy else policy)
      in map_cast_impl T False s src policy parent)"

definition map_cast_pointer :: "'d tensor_type \<Rightarrow> 'e store \<Rightarrow> tensor_map
    \<Rightarrow> return_value_policy \<Rightarrow> 'p option \<Rightarrow> fatal + ('e store \<times> ('d, 'p) ndarray)" where
  "map_cast_pointer T s src policy parent =
     (let policy = (if policy = automatic then take_ownership
                    else if policy = automatic_reference then reference
                    else policy)
      in map_cast_impl T False s src policy parent)"

definition map_cast_const_pointer :: "'d tensor_type \<Rightarrow> 'e store \<Rightarrow> tensor_map
    \<Rightarrow> return_value_policy \<Rightarrow> 'p option \<Rightarrow> fatal + ('e store \<times> ('d, 'p) ndarray)" where
  "map_cast_const_pointer T s src policy parent =
     (let policy = (if policy = automatic then take_ownership
                    else if policy = automatic_reference then reference
                    else policy)
      in map_cast_impl T True s src policy parent)"

definition map_cast_const_lvalue :: "'d tensor_type \<Rightarrow> 'e store \<Rightarrow> tensor_map
    \<Rightarrow> return_value_policy \<Rightarrow> 'p option \<Rightarrow> fatal + ('e store \<times> ('d, 'p) ndarray)" where
  "map_cast_const_lvalue T s src policy parent =
     (let policy = (if policy = automatic \<or> policy = automatic_reference
                    then copy else policy)
      in map_cast_const_pointer T s src policy parent)"

fun map_cast :: "'d tensor_type \<Rightarrow> 'e store \<Rightarrow> source \<Rightarrow> tensor_map
    \<Rightarrow> return_value_policy \<Rightarrow> 'p option \<Rightarrow> fatal + ('e store \<times> ('d, 'p) ndarray)" where
  "map_cast T s Rvalue src policy parent = map_cast_rvalue T s src policy parent"
| "map_cast T s Const_rvalue src policy parent = map_cast_const_rvalue T s src policy parent"
| "map_cast T s Lvalue src policy parent = map_cast_lvalue T s src policy parent"
| "map_cast T s Const_lvalue src policy parent = map_cast_const_lvalue T s src policy parent"
| "map_cast T s Pointer src policy parent = map_cast_pointer T s src policy parent"
| "map_cast T s Const_pointer src policy parent =
     map_cast_const_pointer T s src policy parent"

section \<open>The fatal cases as the specification lists them\<close>

text \<open>
  This predicate follows the words of the specification, not the source: a reference
  policy for a temporary, Move or TakeOwnership for a const source, or an unrecognized
  policy value. It is compared with \<open>tensor_cast\<close> below.
\<close>

definition spec_fatal_cases :: "source \<Rightarrow> return_value_policy \<Rightarrow> bool" where
  "spec_fatal_cases sc policy \<longleftrightarrow>
     (is_rvalue_source sc \<and> (policy = reference \<or> policy = reference_internal))
     \<or> (is_const_source sc \<and> (policy = move \<or> policy = take_ownership))
     \<or> policy = unrecognized"

section \<open>Concrete inputs\<close>

text \<open>
  A fixed-shape kind with dims (2, 3), a dynamic kind of rank 2, both row-major over
  \<open>float32\<close> with the default 64-bit signed index type; a store with one buffer of
  six elements, and a writeable C-contiguous array of shape [2, 3] over it.
\<close>

definition ex_fixed :: "string tensor_type" where
  "ex_fixed = TensorFixedSize ''float32'' [2, 3] RowMajor (Signed_index 64)"

definition ex_dynamic :: "string tensor_type" where
  "ex_dynamic = Tensor ''float32'' 2 RowMajor (Signed_index 64)"

definition ex_store :: "int store" where
  "ex_store = [\<lparr>dimensions = [2, 3], elems = [1, 2, 3, 4, 5, 6]\<rparr>]"

definition ex_array :: "(string, unit) ndarray" where
  "ex_array = \<lparr>shape = [2, 3], dtype = ''float32'', flags = {c_style, NPY_ARRAY_WRITEABLE},
       data = 0, base = Empty_object\<rparr>"

text \<open>
  The same two kinds with \<open>IndexType = int\<close> (32 bits, signed); an array of shape
  [4294967298, 3] over a buffer of 12884901894 zeros; and an array without elements, of
  shape [4294967296, 0].
\<close>

definition ex_fixed_int :: "string tensor_type" where
  "ex_fixed_int = TensorFixedSize ''float32'' [2, 3] RowMajor (Signed_index 32)"

definition ex_dynamic_int :: "string tensor_type" where
  "ex_dynamic_int = Tensor ''float32'' 2 RowMajor (Signed_index 32)"

definition ex_big_store :: "int store" where
  "ex_big_store = [\<lparr>dimensions = [4294967298, 3], elems = replicate 12884901894 0\<rparr>]"

definition ex_big_array :: "(string, unit) ndarray" where
  "ex_big_array = \<lparr>shape = [4294967298, 3], dtype = ''float32'',
       flags = {c_style, NPY_ARRAY_WRITEABLE}, data = 0, base = Empty_object\<rparr>"

definition ex_empty_store :: "int store" where
  "ex_empty_store = [\<lparr>dimensions = [4294967296, 0], elems = []\<rparr>]"

definition ex_empty_array :: "(string, unit) ndarray" where
  "ex_empty_array = \<lparr>shape = [4294967296, 0], dtype = ''float32'',
       flags = {c_style, NPY_ARRAY_WRITEABLE}, data = 0, base = Empty_object\<rparr>"

lemmas ex_defs = ex_fixed_def ex_dynamic_def ex_store_def ex_array_def
  ex_fixed_int_def ex_dynamic_int_def ex_big_store_def ex_big_array_def
  ex_empty_store_def ex_empty_array_def

section \<open>Values that fit the index type\<close>

lemma fits_index_map:
  assumes "\<forall>d \<in> set xs. fits_index I d"
  shows "map (convert_index I) xs = xs"
  using assms by (simp add: fits_index_def map_idI)

lemma fits_index_signed:
  "fits_index (Signed_index w) x \<longleftrightarrow> - (2 ^ (w - 1)) \<le> x \<and> x < 2 ^ (w - 1)"
  by (simp add: fits_index_def signed_take_bit_int_eq_self_iff)

lemma fits_index_unsigned:
  "fits_index (Unsigned_index w) x \<longleftrightarrow> 0 \<le> x \<and> x < 2 ^ w"
  by (simp add: fits_index_def take_bit_int_eq_self_iff)



section \<open>What the two cast_impl do, policy by policy\<close>

lemmas tensor_cast_defs =
  tensor_cast_rvalue_def tensor_cast_const_rvalue_def tensor_cast_lvalue_def
  tensor_cast_const_lvalue_def tensor_cast_pointer_def tensor_cast_const_pointer_def

lemmas map_cast_defs =
  map_cast_rvalue_def map_cast_const_rvalue_def map_cast_lvalue_def
  map_cast_const_lvalue_def map_cast_pointer_def map_cast_const_pointer_def

lemma layout_flag_not_writeable:
  "compute_array_flag_from_tensor T \<noteq> NPY_ARRAY_WRITEABLE"
  "NPY_ARRAY_WRITEABLE \<noteq> compute_array_flag_from_tensor T"
  by (simp_all add: compute_array_flag_from_tensor_def)

lemma tensor_cast_impl_simps:
  "tensor_cast_impl T True s src move parent = Inl Move_from_const"
  "tensor_cast_impl T False s src move parent =
     Inr (s @ [s ! src],
          \<lparr>shape = get_shape T (dimensions (s ! src)), dtype = Scalar T,
           flags = {compute_array_flag_from_tensor T, NPY_ARRAY_WRITEABLE},
           data = length s, base = Capsule (length s) Aligned_destroy\<rparr>)"
  "tensor_cast_impl T True s src take_ownership parent = Inl Take_ownership_of_const"
  "tensor_cast_impl T False s src take_ownership parent =
     Inr (s,
          \<lparr>shape = get_shape T (dimensions (s ! src)), dtype = Scalar T,
           flags = {compute_array_flag_from_tensor T, NPY_ARRAY_WRITEABLE},
           data = src, base = Capsule src Delete\<rparr>)"
  "tensor_cast_impl T c s src copy parent =
     Inr (s @ [\<lparr>dimensions = get_shape T (dimensions (s ! src)),
                elems = take (nat (prod_list (get_shape T (dimensions (s ! src)))))
                          (elems (s ! src))\<rparr>],
          \<lparr>shape = get_shape T (dimensions (s ! src)), dtype = Scalar T,
           flags = {compute_array_flag_from_tensor T, NPY_ARRAY_WRITEABLE},
           data = length s, base = Empty_object\<rparr>)"
  "tensor_cast_impl T c s src reference parent =
     Inr (s,
          \<lparr>shape = get_shape T (dimensions (s ! src)), dtype = Scalar T,
           flags = (if c then {compute_array_flag_from_tensor T}
                    else {compute_array_flag_from_tensor T, NPY_ARRAY_WRITEABLE}),
           data = src, base = None_object\<rparr>)"
  "tensor_cast_impl T c s src automatic parent = Inl Bug_in_eigen_h"
  "tensor_cast_impl T c s src automatic_reference parent = Inl Bug_in_eigen_h"
  "tensor_cast_impl T c s src unrecognized parent = Inl Bug_in_eigen_h"
  by (auto simp: tensor_cast_impl_def tensor_policy_switch_def move_construct_def
      array_t_def compute_array_flag_from_tensor_def)

lemma tensor_cast_impl_reference_internal:
  "\<exists>s' h. tensor_cast_impl T c s src reference_internal parent = Inr (s', h)
      \<and> (NPY_ARRAY_WRITEABLE \<in> flags h \<longleftrightarrow> \<not> c)"
  by (auto simp: tensor_cast_impl_def tensor_policy_switch_def
      array_t_def compute_array_flag_from_tensor_def)

lemma map_cast_impl_simps:
  "map_cast_impl T c s m reference parent =
     Inr (s,
          \<lparr>shape = get_shape T (map_dimensions m), dtype = Scalar T,
           flags = (if c then {compute_array_flag_from_tensor T}
                    else {compute_array_flag_from_tensor T, NPY_ARRAY_WRITEABLE}),
           data = map_data m, base = None_object\<rparr>)"
  "map_cast_impl T c s m copy parent = Inl Invalid_policy_for_map"
  "map_cast_impl T c s m move parent = Inl Invalid_policy_for_map"
  "map_cast_impl T c s m take_ownership parent = Inl Invalid_policy_for_map"
  "map_cast_impl T c s m automatic parent = Inl Invalid_policy_for_map"
  "map_cast_impl T c s m automatic_reference parent = Inl Invalid_policy_for_map"
  "map_cast_impl T c s m unrecognized parent = Inl Invalid_policy_for_map"
  by (auto simp: map_cast_impl_def array_t_def compute_array_flag_from_tensor_def)

lemma map_cast_impl_reference_internal:
  "\<exists>s' h. map_cast_impl T c s m reference_internal parent = Inr (s', h)
      \<and> (NPY_ARRAY_WRITEABLE \<in> flags h \<longleftrightarrow> \<not> c)"
  by (auto simp: map_cast_impl_def array_t_def compute_array_flag_from_tensor_def)

section \<open>Loading an owning tensor\<close>




text \<open>
  C8. The owning-tensor load gives the same result (the same decision, the same store and
  the same loaded value) whether its \<open>convert\<close> flag is true or false.
\<close>

theorem tensor_load_ignores_convert:
  "tensor_load T s a True = tensor_load T s a False"
  by (simp add: tensor_load_def)

section \<open>Loading a map\<close>




text \<open>
  C10. The map loader does not read the writeable flag. Two arrays that differ at most in
  that flag are both rejected with \<open>false\<close> or both not. When the four tests pass (the
  shape test on the shape as stored into the index array), the result is whatever the
  request for the mutable pointer gives, whether the array is writeable or not: the view
  over that pointer, or the failure of the accessor; it is never \<open>false\<close>. This holds
  for every behaviour \<open>md\<close> of the accessor.
\<close>

theorem map_load_ignores_writeable:
  "(flags a - {NPY_ARRAY_WRITEABLE} = flags a' - {NPY_ARRAY_WRITEABLE}
      \<and> shape a = shape a' \<and> dtype a = dtype a'
      \<longrightarrow> (map_load_with md T s a convert = Inr (s, None)
           \<longleftrightarrow> map_load_with md T s a' convert = Inr (s, None)))
   \<and> (compute_array_flag_from_tensor T \<in> flags a \<and> dtype a = Scalar T
        \<and> ndim a = NumIndices T
        \<and> is_correct_shape T (map (convert_index (Index T)) (shape a))
      \<longrightarrow> map_load_with md T s a convert
            = (case md a of Inl e \<Rightarrow> Inl e
               | Inr p \<Rightarrow> Inr (s, Some \<lparr>map_data = p,
                     map_dimensions = map (convert_index (Index T)) (shape a)\<rparr>))
          \<and> map_load_with md T s a convert \<noteq> Inr (s, None))"
proof -
  have flag_mem: "compute_array_flag_from_tensor T \<in> flags b
      \<longleftrightarrow> compute_array_flag_from_tensor T \<in> flags b - {NPY_ARRAY_WRITEABLE}"
    for b :: "('a, 'b) ndarray"
    by (simp add: layout_flag_not_writeable)
  have reject: "map_load_with md T s b convert = Inr (s, None)
      \<longleftrightarrow> compute_array_flag_from_tensor T \<notin> flags b - {NPY_ARRAY_WRITEABLE}
          \<or> dtype b \<noteq> Scalar T \<or> ndim b \<noteq> NumIndices T
          \<or> \<not> is_correct_shape T (map (convert_index (Index T)) (shape b))"
    for b :: "('a, 'b) ndarray"
    unfolding flag_mem [symmetric]
    by (auto simp: map_load_with_def ndim_def Let_def split: sum.splits)
  have accept: "map_load_with md T s a convert
            = (case md a of Inl e \<Rightarrow> Inl e
               | Inr p \<Rightarrow> Inr (s, Some \<lparr>map_data = p,
                     map_dimensions = map (convert_index (Index T)) (shape a)\<rparr>))"
    if "compute_array_flag_from_tensor T \<in> flags a" "dtype a = Scalar T"
       "ndim a = NumIndices T"
       "is_correct_shape T (map (convert_index (Index T)) (shape a))"
    using that by (simp add: map_load_with_def ndim_def Let_def)
  show ?thesis
    using reject [of a] reject [of a'] accept
    by (auto simp: ndim_def split: sum.splits)
qed

theorem map_load_ignores_writeable_witness:
  "flags ex_array - {NPY_ARRAY_WRITEABLE}
     = flags (ex_array\<lparr>flags := {c_style}\<rparr>) - {NPY_ARRAY_WRITEABLE}
   \<and> shape ex_array = shape (ex_array\<lparr>flags := {c_style}\<rparr>)
   \<and> dtype ex_array = dtype (ex_array\<lparr>flags := {c_style}\<rparr>)
   \<and> compute_array_flag_from_tensor ex_fixed \<in> flags (ex_array\<lparr>flags := {c_style}\<rparr>)
   \<and> dtype (ex_array\<lparr>flags := {c_style}\<rparr>) = Scalar ex_fixed
   \<and> ndim (ex_array\<lparr>flags := {c_style}\<rparr>) = NumIndices ex_fixed
   \<and> is_correct_shape ex_fixed
        (map (convert_index (Index ex_fixed)) (shape (ex_array\<lparr>flags := {c_style}\<rparr>)))
   \<and> NPY_ARRAY_WRITEABLE \<notin> flags (ex_array\<lparr>flags := {c_style}\<rparr>)
   \<and> map_load_with mutable_data ex_fixed ex_store (ex_array\<lparr>flags := {c_style}\<rparr>) False
     = Inr (ex_store, Some \<lparr>map_data = 0, map_dimensions = [2, 3]\<rparr>)
   \<and> map_load_with mutable_data ex_fixed ex_store ex_array False
     = Inr (ex_store, Some \<lparr>map_data = 0, map_dimensions = [2, 3]\<rparr>)"
proof -
  have conv: "map (convert_index (Signed_index 64)) [2, 3] = [2, 3]"
    by (rule fits_index_map) (simp add: fits_index_signed)
  show ?thesis
    using map_load_ignores_writeable [of ex_array "ex_array\<lparr>flags := {c_style}\<rparr>"
        mutable_data ex_fixed ex_store False]
      map_load_ignores_writeable [of "ex_array\<lparr>flags := {c_style}\<rparr>" ex_array
        mutable_data ex_fixed ex_store False]
      conv
    by (simp add: ex_defs compute_array_flag_from_tensor_def ndim_def mutable_data_def
        insert_Diff_if)
qed

section \<open>Casting an owning tensor\<close>

text \<open>
  C3, as amended. The owning-tensor caster fails fatally in exactly these cases: a
  reference policy (\<open>reference\<close>, \<open>reference_internal\<close>) for a temporary; a const temporary
  under any policy; \<open>move\<close> or \<open>take_ownership\<close> for a const source, which includes
  \<open>automatic\<close> for a const pointer (it stands for \<open>take_ownership\<close>); an unrecognized
  policy value for a source that is not a temporary. In every other case it produces a
  handle; an unrecognized policy value for a non-const temporary is among these, since
  the policy of a temporary is replaced by \<open>move\<close>.
\<close>

theorem tensor_cast_fatal_cases:
  "((\<exists>e. tensor_cast T s sc src policy parent = Inl e) \<longleftrightarrow>
      (is_rvalue_source sc \<and> (policy = reference \<or> policy = reference_internal))
      \<or> (is_rvalue_source sc \<and> is_const_source sc)
      \<or> (is_const_source sc \<and> (policy = move \<or> policy = take_ownership))
      \<or> (sc = Const_pointer \<and> policy = automatic)
      \<or> (\<not> is_rvalue_source sc \<and> policy = unrecognized))
   \<and> ((\<exists>s' h. tensor_cast T s sc src policy parent = Inr (s', h)) \<longleftrightarrow>
      \<not> ((is_rvalue_source sc \<and> (policy = reference \<or> policy = reference_internal))
      \<or> (is_rvalue_source sc \<and> is_const_source sc)
      \<or> (is_const_source sc \<and> (policy = move \<or> policy = take_ownership))
      \<or> (sc = Const_pointer \<and> policy = automatic)
      \<or> (\<not> is_rvalue_source sc \<and> policy = unrecognized)))"
proof -
  obtain s' h
    where ri: "tensor_cast_impl T (is_const_source sc) s src reference_internal parent
      = Inr (s', h)"
    using tensor_cast_impl_reference_internal by blast
  show ?thesis
    using ri
    by (cases sc; cases policy) (simp_all add: tensor_cast_defs tensor_cast_impl_simps)
qed

theorem tensor_cast_fatal_cases_witness:
  "tensor_cast ex_dynamic ex_store Const_rvalue 0 copy (None :: unit option)
     = Inl Move_from_const
   \<and> tensor_cast ex_dynamic ex_store Const_pointer 0 automatic (None :: unit option)
     = Inl Take_ownership_of_const
   \<and> tensor_cast ex_dynamic ex_store Lvalue 0 unrecognized (None :: unit option)
     = Inl Bug_in_eigen_h
   \<and> (\<exists>s' h. tensor_cast ex_dynamic ex_store Rvalue 0 unrecognized (None :: unit option)
        = Inr (s', h))
   \<and> (\<exists>s' h. tensor_cast ex_dynamic ex_store Const_lvalue 0 reference (None :: unit option)
        = Inr (s', h))"
  using tensor_cast_fatal_cases [of ex_dynamic ex_store Rvalue 0 unrecognized
      "None :: unit option"]
    tensor_cast_fatal_cases [of ex_dynamic ex_store Const_lvalue 0 reference
      "None :: unit option"]
  by (simp add: tensor_cast_defs tensor_cast_impl_simps)

text \<open>
  C3, as the specification states it, fails on the code. A const temporary cast with
  \<open>copy\<close> fails fatally, and that case is not in the specification's list; a non-const
  temporary cast with an unrecognized policy value yields a handle, and that case is in
  the list.
\<close>

theorem tensor_cast_fatal_cases_counterexample:
  "tensor_cast ex_dynamic ex_store Const_rvalue 0 copy (None :: unit option)
     = Inl Move_from_const
   \<and> \<not> spec_fatal_cases Const_rvalue copy
   \<and> tensor_cast ex_dynamic ex_store Rvalue 0 unrecognized (None :: unit option)
     = Inr (ex_store @ [ex_store ! 0],
            \<lparr>shape = [2, 3], dtype = ''float32'', flags = {c_style, NPY_ARRAY_WRITEABLE},
             data = 1, base = Capsule 1 Aligned_destroy\<rparr>)
   \<and> spec_fatal_cases Rvalue unrecognized"
  by (simp add: tensor_cast_defs tensor_cast_impl_simps spec_fatal_cases_def ex_defs
      compute_array_flag_from_tensor_def)

text \<open>
  C9. For a non-const temporary and every policy other than \<open>reference\<close> and
  \<open>reference_internal\<close>, the caster does what \<open>cast_impl\<close> does for \<open>move\<close>, whatever
  was requested: the tensor is relocated to the address \<open>length s\<close>, which no block of
  the old store has; the handle points at that block, and its owner is a capsule on that
  block with the aligned destructor. With \<open>copy\<close> requested the owner is therefore that
  capsule, not the empty object under which the array would hold a copy of its own. A
  const temporary fails fatally under every policy.
\<close>

theorem rvalue_cast_moves:
  "(policy \<noteq> reference \<and> policy \<noteq> reference_internal \<longrightarrow>
      tensor_cast T s Rvalue src policy parent = tensor_cast_impl T False s src move parent
      \<and> tensor_cast T s Rvalue src policy parent
        = Inr (s @ [s ! src],
               \<lparr>shape = get_shape T (dimensions (s ! src)), dtype = Scalar T,
                flags = {compute_array_flag_from_tensor T, NPY_ARRAY_WRITEABLE},
                data = length s, base = Capsule (length s) Aligned_destroy\<rparr>))
   \<and> (\<exists>e. tensor_cast T s Const_rvalue src policy parent = Inl e)"
  by (simp add: tensor_cast_defs tensor_cast_impl_simps)

theorem rvalue_cast_moves_witness:
  "copy \<noteq> reference \<and> copy \<noteq> reference_internal
   \<and> tensor_cast ex_dynamic ex_store Rvalue 0 copy (None :: unit option)
     = Inr ([\<lparr>dimensions = [2, 3], elems = [1, 2, 3, 4, 5, 6]\<rparr>,
             \<lparr>dimensions = [2, 3], elems = [1, 2, 3, 4, 5, 6]\<rparr>],
            \<lparr>shape = [2, 3], dtype = ''float32'', flags = {c_style, NPY_ARRAY_WRITEABLE},
             data = 1, base = Capsule 1 Aligned_destroy\<rparr>)
   \<and> tensor_cast ex_dynamic ex_store Const_rvalue 0 copy (None :: unit option)
     = Inl Move_from_const"
  using rvalue_cast_moves [of copy ex_dynamic ex_store 0 "None :: unit option"]
  by (simp add: tensor_cast_defs tensor_cast_impl_simps ex_defs
      compute_array_flag_from_tensor_def)

section \<open>Casting a map\<close>

text \<open>
  C4. Casting a map with \<open>copy\<close>, \<open>move\<close> or \<open>take_ownership\<close> fails fatally through
  every overload, for const and non-const sources alike. \<open>cast_impl\<close> of the map caster
  produces a handle exactly for \<open>reference\<close> and \<open>reference_internal\<close>. Through the
  overloads, the one further request that produces a handle is \<open>automatic_reference\<close>
  for a pointer, which the overload resolves to \<open>reference\<close>.
\<close>

theorem map_cast_policies:
  "(policy \<in> {copy, move, take_ownership}
      \<longrightarrow> map_cast T s sc m policy parent = Inl Invalid_policy_for_map)
   \<and> ((\<exists>s' h. map_cast_impl T c s m policy parent = Inr (s', h))
        \<longleftrightarrow> policy = reference \<or> policy = reference_internal)
   \<and> ((\<exists>s' h. map_cast T s sc m policy parent = Inr (s', h))
        \<longrightarrow> policy = reference \<or> policy = reference_internal
            \<or> (policy = automatic_reference \<and> (sc = Pointer \<or> sc = Const_pointer)))"
proof -
  obtain s1 h1
    where ri: "map_cast_impl T c s m reference_internal parent = Inr (s1, h1)"
    using map_cast_impl_reference_internal by blast
  have impl: "(\<exists>s' h. map_cast_impl T c s m policy parent = Inr (s', h))
        \<longleftrightarrow> policy = reference \<or> policy = reference_internal"
    using ri by (cases policy) (simp_all add: map_cast_impl_simps)
  have fatal: "policy \<in> {copy, move, take_ownership}
      \<longrightarrow> map_cast T s sc m policy parent = Inl Invalid_policy_for_map"
    by (cases sc) (auto simp: map_cast_defs map_cast_impl_simps)
  have only: "(\<exists>s' h. map_cast T s sc m policy parent = Inr (s', h))
        \<longrightarrow> policy = reference \<or> policy = reference_internal
            \<or> (policy = automatic_reference \<and> (sc = Pointer \<or> sc = Const_pointer))"
    by (cases sc; cases policy) (simp_all add: map_cast_defs map_cast_impl_simps)
  from fatal impl only show ?thesis by blast
qed

theorem map_cast_policies_witness:
  "move \<in> {copy, move, take_ownership}
   \<and> map_cast ex_dynamic ex_store Lvalue \<lparr>map_data = 0, map_dimensions = [2, 3]\<rparr> move
        (None :: unit option) = Inl Invalid_policy_for_map
   \<and> map_cast ex_dynamic ex_store Lvalue \<lparr>map_data = 0, map_dimensions = [2, 3]\<rparr> reference
        (None :: unit option)
      = Inr (ex_store,
             \<lparr>shape = [2, 3], dtype = ''float32'', flags = {c_style, NPY_ARRAY_WRITEABLE},
              data = 0, base = None_object\<rparr>)"
  using map_cast_policies [of move ex_dynamic ex_store Lvalue
      "\<lparr>map_data = 0, map_dimensions = [2, 3]\<rparr>" "None :: unit option"]
    map_cast_policies [of reference ex_dynamic ex_store Lvalue
      "\<lparr>map_data = 0, map_dimensions = [2, 3]\<rparr>" "None :: unit option"]
  by (simp add: map_cast_defs map_cast_impl_simps ex_defs compute_array_flag_from_tensor_def)

section \<open>The writeable flag of a produced handle\<close>

lemma tensor_cast_impl_writeable:
  assumes "tensor_cast_impl T c s src policy parent = Inr (s', h)"
  shows "(policy \<in> {copy, move, take_ownership} \<longrightarrow> NPY_ARRAY_WRITEABLE \<in> flags h)
    \<and> (policy \<in> {reference, reference_internal}
          \<longrightarrow> (NPY_ARRAY_WRITEABLE \<in> flags h \<longleftrightarrow> \<not> c))"
  using assms tensor_cast_impl_reference_internal [of T c s src parent]
  by (cases policy; cases c) (auto simp: tensor_cast_impl_simps layout_flag_not_writeable)

lemma map_cast_impl_writeable:
  assumes "map_cast_impl T c s m policy parent = Inr (s', h)"
  shows "(policy \<in> {copy, move, take_ownership} \<longrightarrow> NPY_ARRAY_WRITEABLE \<in> flags h)
    \<and> (policy \<in> {reference, reference_internal}
          \<longrightarrow> (NPY_ARRAY_WRITEABLE \<in> flags h \<longleftrightarrow> \<not> c))"
  using assms map_cast_impl_reference_internal [of T c s m parent]
  by (cases policy; cases c) (auto simp: map_cast_impl_simps layout_flag_not_writeable)

lemma tensor_cast_writeable:
  assumes "tensor_cast T s sc src policy parent = Inr (s', h)"
  shows "(policy \<in> {copy, move, take_ownership} \<longrightarrow> NPY_ARRAY_WRITEABLE \<in> flags h)
    \<and> (policy \<in> {reference, reference_internal}
          \<longrightarrow> (NPY_ARRAY_WRITEABLE \<in> flags h \<longleftrightarrow> \<not> is_const_source sc))"
proof (cases "policy \<in> {copy, move, take_ownership, reference, reference_internal}")
  case False
  then show ?thesis by simp
next
  case named: True
  show ?thesis
  proof (cases "is_rvalue_source sc")
    case True
    with assms named have "policy \<in> {copy, move, take_ownership}"
      and "tensor_cast_impl T (is_const_source sc) s src move parent = Inr (s', h)"
      by (cases sc; auto simp: tensor_cast_defs split: if_splits)+
    then show ?thesis
      using tensor_cast_impl_writeable [of T "is_const_source sc" s src move parent s' h]
      by auto
  next
    case False
    with assms named
    have "tensor_cast_impl T (is_const_source sc) s src policy parent = Inr (s', h)"
      by (cases sc) (auto simp: tensor_cast_defs)
    then show ?thesis by (rule tensor_cast_impl_writeable)
  qed
qed

lemma map_cast_writeable:
  assumes "map_cast T s sc m policy parent = Inr (s', h)"
  shows "(policy \<in> {copy, move, take_ownership} \<longrightarrow> NPY_ARRAY_WRITEABLE \<in> flags h)
    \<and> (policy \<in> {reference, reference_internal}
          \<longrightarrow> (NPY_ARRAY_WRITEABLE \<in> flags h \<longleftrightarrow> \<not> is_const_source sc))"
proof (cases "policy \<in> {copy, move, take_ownership, reference, reference_internal}")
  case False
  then show ?thesis by simp
next
  case True
  with assms
  have "map_cast_impl T (is_const_source sc) s m policy parent = Inr (s', h)"
    by (cases sc) (auto simp: map_cast_defs)
  then show ?thesis by (rule map_cast_impl_writeable)
qed

text \<open>
  C5. Whenever a cast produces a handle (the owning caster or the map caster, through an
  overload or in \<open>cast_impl\<close>), the handle is writeable if the policy is \<open>copy\<close>,
  \<open>move\<close> or \<open>take_ownership\<close>, and if the policy is \<open>reference\<close> or
  \<open>reference_internal\<close> it is writeable exactly when the source is not const.
\<close>

theorem cast_writeable_flag:
  "(tensor_cast T s sc src policy parent = Inr (s', h) \<longrightarrow>
      (policy \<in> {copy, move, take_ownership} \<longrightarrow> NPY_ARRAY_WRITEABLE \<in> flags h)
      \<and> (policy \<in> {reference, reference_internal}
            \<longrightarrow> (NPY_ARRAY_WRITEABLE \<in> flags h \<longleftrightarrow> \<not> is_const_source sc)))
   \<and> (tensor_cast_impl T c s src policy parent = Inr (s', h) \<longrightarrow>
      (policy \<in> {copy, move, take_ownership} \<longrightarrow> NPY_ARRAY_WRITEABLE \<in> flags h)
      \<and> (policy \<in> {reference, reference_internal}
            \<longrightarrow> (NPY_ARRAY_WRITEABLE \<in> flags h \<longleftrightarrow> \<not> c)))
   \<and> (map_cast T s sc m policy parent = Inr (s', h) \<longrightarrow>
      (policy \<in> {copy, move, take_ownership} \<longrightarrow> NPY_ARRAY_WRITEABLE \<in> flags h)
      \<and> (policy \<in> {reference, reference_internal}
            \<longrightarrow> (NPY_ARRAY_WRITEABLE \<in> flags h \<longleftrightarrow> \<not> is_const_source sc)))
   \<and> (map_cast_impl T c s m policy parent = Inr (s', h) \<longrightarrow>
      (policy \<in> {copy, move, take_ownership} \<longrightarrow> NPY_ARRAY_WRITEABLE \<in> flags h)
      \<and> (policy \<in> {reference, reference_internal}
            \<longrightarrow> (NPY_ARRAY_WRITEABLE \<in> flags h \<longleftrightarrow> \<not> c)))"
  using tensor_cast_writeable [of T s sc src policy parent s' h]
    tensor_cast_impl_writeable [of T c s src policy parent s' h]
    map_cast_writeable [of T s sc m policy parent s' h]
    map_cast_impl_writeable [of T c s m policy parent s' h]
  by blast

theorem cast_writeable_flag_witness:
  "tensor_cast ex_dynamic ex_store Const_lvalue 0 reference (None :: unit option)
     = Inr (ex_store, \<lparr>shape = [2, 3], dtype = ''float32'', flags = {c_style},
                        data = 0, base = None_object\<rparr>)
   \<and> tensor_cast_impl ex_dynamic True ex_store 0 reference (None :: unit option)
     = Inr (ex_store, \<lparr>shape = [2, 3], dtype = ''float32'', flags = {c_style},
                        data = 0, base = None_object\<rparr>)
   \<and> map_cast ex_dynamic ex_store Const_lvalue \<lparr>map_data = 0, map_dimensions = [2, 3]\<rparr>
        reference (None :: unit option)
     = Inr (ex_store, \<lparr>shape = [2, 3], dtype = ''float32'', flags = {c_style},
                        data = 0, base = None_object\<rparr>)
   \<and> map_cast_impl ex_dynamic True ex_store \<lparr>map_data = 0, map_dimensions = [2, 3]\<rparr>
        reference (None :: unit option)
     = Inr (ex_store, \<lparr>shape = [2, 3], dtype = ''float32'', flags = {c_style},
                        data = 0, base = None_object\<rparr>)
   \<and> reference \<in> {reference, reference_internal}
   \<and> is_const_source Const_lvalue
   \<and> NPY_ARRAY_WRITEABLE \<notin> flags \<lparr>shape = [2, 3], dtype = ''float32'', flags = {c_style},
                        data = 0, base = (None_object :: unit object)\<rparr>
   \<and> tensor_cast ex_dynamic ex_store Lvalue 0 copy (None :: unit option)
     = Inr (ex_store @ [\<lparr>dimensions = [2, 3], elems = [1, 2, 3, 4, 5, 6]\<rparr>],
            \<lparr>shape = [2, 3], dtype = ''float32'', flags = {c_style, NPY_ARRAY_WRITEABLE},
             data = 1, base = Empty_object\<rparr>)
   \<and> copy \<in> {copy, move, take_ownership}
   \<and> NPY_ARRAY_WRITEABLE \<in> flags \<lparr>shape = [2, 3], dtype = ''float32'',
             flags = {c_style, NPY_ARRAY_WRITEABLE},
             data = 1, base = (Empty_object :: unit object)\<rparr>"
  using cast_writeable_flag [where T = ex_dynamic and s = ex_store and sc = Const_lvalue
      and src = 0 and policy = reference and parent = "None :: unit option"
      and c = True and m = "\<lparr>map_data = 0, map_dimensions = [2, 3]\<rparr>"
      and s' = ex_store
      and h = "\<lparr>shape = [2, 3], dtype = ''float32'', flags = {c_style},
                        data = 0, base = None_object\<rparr>"]
    cast_writeable_flag [where T = ex_dynamic and s = ex_store and sc = Lvalue
      and src = 0 and policy = copy and parent = "None :: unit option"
      and s' = "ex_store @ [\<lparr>dimensions = [2, 3], elems = [1, 2, 3, 4, 5, 6]\<rparr>]"
      and h = "\<lparr>shape = [2, 3], dtype = ''float32'', flags = {c_style, NPY_ARRAY_WRITEABLE},
             data = 1, base = Empty_object\<rparr>"]
  by (simp add: tensor_cast_defs map_cast_defs tensor_cast_impl_simps map_cast_impl_simps
      ex_defs compute_array_flag_from_tensor_def)

section \<open>Round trip\<close>




section \<open>The shape helper\<close>

text \<open>
  C7. For a fixed-shape tensor kind with compile-time dims \<open>Indices\<close> and a candidate
  shape of the same rank, \<open>is_correct_shape\<close> returns true if and only if the shape
  equals \<open>Indices\<close> in every dimension. A shape that agrees with \<open>Indices\<close> on some
  dimensions only is rejected.
\<close>

theorem is_correct_shape_fixed_exact:
  assumes "length shp = length Indices"
  shows "is_correct_shape (TensorFixedSize sc Indices l I) shp
           \<longleftrightarrow> (\<forall>i < length Indices. shp ! i = Indices ! i)"
  using assms by (auto simp: list_eq_iff_nth_eq)

theorem is_correct_shape_fixed_exact_witness:
  "length [2, 4 :: int] = length [2, 3 :: int]
   \<and> is_correct_shape (TensorFixedSize ''float32'' [2, 3] RowMajor (Signed_index 64)) [2, 3]
   \<and> \<not> is_correct_shape (TensorFixedSize ''float32'' [2, 3] RowMajor (Signed_index 64)) [3, 2]
   \<and> \<not> is_correct_shape (TensorFixedSize ''float32'' [2, 3] RowMajor (Signed_index 64)) [2, 4]"
  using is_correct_shape_fixed_exact [of "[2, 4]" "[2, 3]" "''float32''" RowMajor
      "Signed_index 64"]
  by simp

end
